theory Spec2Isabelle
  imports Main
begin

section \<open>Error values of package errors (restapigw/pkg/errors/error.go)\<close>

text \<open>
  A stack snapshot is the ordered sequence of call frames that \<open>callers()\<close> returns.
  The capture itself (stack.go) reads the Go runtime, so every constructor below takes
  the snapshot captured at its call site as an argument.
\<close>

record frame =
  frame_function :: string
  frame_file :: string
  frame_line :: nat

type_synonym stack = "frame list"

text \<open>
  A non-nil value of Go's interface type \<open>error\<close>, by dynamic type:
  \<^item> \<open>fundamental msg stack\<close>, \<open>withStack error stack\<close>, \<open>withMessage cause msg\<close>: the
    three unexported struct types of lines 28-41 (field order as in the source). They
    are built only by the functions of this file, which never store a nil error in
    them, so the wrapped error is a non-nil value;
  \<^item> \<open>ErrorT Code Message\<close>: the exported struct \<open>Error\<close> of lines 44-47, behind its
    non-nil pointer;
  \<^item> \<open>foreignError msg\<close>: an error value of another package that has an \<open>Error()\<close>
    method only;
  \<^item> \<open>foreignCauser msg cause\<close>: an error value of another package that also has a
    \<open>Cause() error\<close> method, which may return nil.
  The interface type \<open>error\<close> itself is \<open>error option\<close>, with \<open>None\<close> for nil.
  Every chain of this datatype is finite, as every chain built by nesting is.
  \<open>Code\<close> is a Go \<open>int\<close>; the package does no arithmetic on it, so it is an integer
  here.
\<close>

datatype error =
    fundamental string stack
  | withStack error stack
  | withMessage error string
  | ErrorT int string
  | foreignError string
  | foreignCauser string "error option"

text \<open>The \<open>Error()\<close> methods (lines 53-57, 93); \<open>withStack\<close> embeds the interface
  \<open>error\<close>, so its \<open>Error()\<close> is the one of the wrapped value.\<close>

fun Error :: "error \<Rightarrow> string" where
  "Error (ErrorT code message) = message"
| "Error (fundamental msg st) = msg"
| "Error (withStack err st) = Error err"
| "Error (withMessage cause msg) = msg @ '': '' @ Error cause"
| "Error (foreignError msg) = msg"
| "Error (foreignCauser msg cause) = msg"

text \<open>
  The type assertion \<open>err.(causer)\<close> of line 230 followed by the call of line 234:
  \<open>None\<close> when the dynamic type has no \<open>Cause()\<close> method, otherwise \<open>Some\<close> of what
  \<open>Cause()\<close> returns (lines 75 and 94 for the two wrappers of this package).
\<close>

fun causer :: "error \<Rightarrow> error option option" where
  "causer (withStack err st) = Some (Some err)"
| "causer (withMessage cause msg) = Some (Some cause)"
| "causer (foreignCauser msg cause) = Some cause"
| "causer (fundamental msg st) = None"
| "causer (ErrorT code message) = None"
| "causer (foreignError msg) = None"

text \<open>The loop of \<open>Cause\<close> (lines 224-237): it runs while \<open>err\<close> is not nil and has a
  \<open>Cause()\<close> method.\<close>

function Cause :: "error option \<Rightarrow> error option" where
  "Cause None = None"
| "Cause (Some e) = (case causer e of None \<Rightarrow> Some e | Some c \<Rightarrow> Cause c)"
  by pat_completeness auto
termination
proof (relation "measure (\<lambda>err. case err of None \<Rightarrow> 0 | Some e \<Rightarrow> size e)")
  show "wf (measure (\<lambda>err. case err of None \<Rightarrow> 0 | Some e \<Rightarrow> size e))"
    by simp
next
  fix e :: error and c :: "error option"
  assume step: "causer e = Some c"
  have pos: "0 < size e"
    using step by (cases e) auto
  have smaller: "size c' < size e" if "c = Some c'" for c'
    using step that by (cases e) auto
  show "(c, Some e) \<in> measure (\<lambda>err. case err of None \<Rightarrow> 0 | Some e \<Rightarrow> size e)"
    using pos smaller by (cases c) auto
qed

subsection \<open>Constructors and wrappers\<close>

text \<open>\<open>cs\<close> is the snapshot that \<open>callers()\<close> returns at the call.\<close>

definition New :: "stack \<Rightarrow> string \<Rightarrow> error option" where
  "New cs message = Some (fundamental message cs)"

definition NewWithCode :: "int \<Rightarrow> string \<Rightarrow> error" where
  "NewWithCode code message = ErrorT code message"

text \<open>\<open>sprintf\<close> stands for \<open>fmt.Sprintf\<close> of the standard library.\<close>

definition Errorf :: "(string \<Rightarrow> 'a list \<Rightarrow> string) \<Rightarrow> stack \<Rightarrow> string \<Rightarrow> 'a list \<Rightarrow> error option" where
  "Errorf sprintf cs format args = Some (fundamental (sprintf format args) cs)"

definition Wrap :: "stack \<Rightarrow> error option \<Rightarrow> string \<Rightarrow> error option" where
  "Wrap cs err message =
     (case err of
        None \<Rightarrow> None
      | Some e \<Rightarrow> Some (withStack (withMessage e message) cs))"

definition Wrapf :: "(string \<Rightarrow> 'a list \<Rightarrow> string) \<Rightarrow> stack \<Rightarrow> error option \<Rightarrow> string \<Rightarrow> 'a list \<Rightarrow> error option" where
  "Wrapf sprintf cs err format args =
     (case err of
        None \<Rightarrow> None
      | Some e \<Rightarrow> Some (withStack (withMessage e (sprintf format args)) cs))"

definition WithStack :: "stack \<Rightarrow> error option \<Rightarrow> error option" where
  "WithStack cs err =
     (case err of
        None \<Rightarrow> None
      | Some e \<Rightarrow> Some (withStack e cs))"

definition WithMessage :: "error option \<Rightarrow> string \<Rightarrow> error option" where
  "WithMessage err message =
     (case err of
        None \<Rightarrow> None
      | Some e \<Rightarrow> Some (withMessage e message))"

subsection \<open>The \<open>Format\<close> methods\<close>

text \<open>
  What \<open>Format\<close> needs from outside this file:
  \<^item> \<open>stack_Format plusf verb st\<close>: what \<open>(*stack).Format\<close> (stack.go) writes for the
    snapshot \<open>st\<close>, given the state's \<open>+\<close> flag and the verb;
  \<^item> \<open>quote s\<close>: what \<open>fmt.Fprintf(s, "%q", msg)\<close> writes for a string;
  \<^item> \<open>other_verb plusf verb e\<close>: what package fmt writes for an error operand without a
    \<open>Format\<close> method under a verb other than v, s and q.
\<close>

record fmt_env =
  stack_Format :: "bool \<Rightarrow> char \<Rightarrow> stack \<Rightarrow> string"
  quote :: "string \<Rightarrow> string"
  other_verb :: "bool \<Rightarrow> char \<Rightarrow> error \<Rightarrow> string"

definition newline :: char where
  "newline = CHR 0x0A"

text \<open>
  \<open>Format env plusf verb e\<close> is the text written to the \<open>fmt.State\<close> when \<open>e\<close> is
  formatted with \<open>verb\<close>, \<open>plusf\<close> being \<open>s.Flag('+')\<close>. The first three equations are
  the methods of lines 59-73, 77-91 and 96-108; \<open>fmt.Fprintf(s, "%+v", w.Cause())\<close>
  formats the cause with verb v and the flag set, through the cause's own \<open>Format\<close>
  when it has one. The other dynamic types have no \<open>Format\<close> method: package fmt
  writes \<open>Error()\<close> for the verbs v and s, and quotes it for q.
\<close>

fun Format :: "fmt_env \<Rightarrow> bool \<Rightarrow> char \<Rightarrow> error \<Rightarrow> string" where
  "Format env plusf verb (fundamental msg st) =
     (if verb = CHR ''v'' then
        (if plusf then msg @ stack_Format env plusf verb st
         else msg)
      else if verb = CHR ''s'' then msg
      else if verb = CHR ''q'' then quote env msg
      else [])"
| "Format env plusf verb (withStack err st) =
     (if verb = CHR ''v'' then
        (if plusf then Format env True (CHR ''v'') err @ stack_Format env plusf verb st
         else Error (withStack err st))
      else if verb = CHR ''s'' then Error (withStack err st)
      else if verb = CHR ''q'' then quote env (Error (withStack err st))
      else [])"
| "Format env plusf verb (withMessage cause msg) =
     (if verb = CHR ''v'' then
        (if plusf then Format env True (CHR ''v'') cause @ [newline] @ msg
         else Error (withMessage cause msg))
      else if verb = CHR ''s'' \<or> verb = CHR ''q'' then Error (withMessage cause msg)
      else [])"
| "Format env plusf verb e =
     (if verb = CHR ''v'' \<or> verb = CHR ''s'' then Error e
      else if verb = CHR ''q'' then quote env (Error e)
      else other_verb env plusf verb e)"

section \<open>The boundary handler\<close>

text \<open>
  A value of Go's \<open>interface{}\<close>: nil, a value whose dynamic type implements \<open>error\<close>,
  a string, an int, or a value \<open>OtherV v\<close> of any other type that does not implement
  \<open>error\<close>.
\<close>

datatype 'v any = NilV | ErrorV error | StringV string | IntV int | OtherV 'v

subsection \<open>Collaborators\<close>

text \<open>\<open>logging.Fields\<close> is a Go map from field names to values.\<close>

type_synonym 'v Fields = "string \<rightharpoonup> 'v any"

datatype severity = InfoLevel | ErrorLevel

record 'v log_entry =
  entry_level :: severity
  entry_message :: string
  entry_fields :: "'v Fields"

record 'v response =
  resp_status :: int
  resp_payload :: "'v any"

text \<open>What a call has done to the outside, in order: entries handed to the log and
  responses written to the \<open>http.ResponseWriter\<close>.\<close>

datatype 'v event = Logged "'v log_entry" | Rendered "'v response"

fun entries :: "'v event list \<Rightarrow> 'v log_entry list" where
  "entries [] = []"
| "entries (Logged e # tr) = e # entries tr"
| "entries (Rendered r # tr) = entries tr"

fun responses :: "'v event list \<Rightarrow> 'v response list" where
  "responses [] = []"
| "responses (Logged e # tr) = responses tr"
| "responses (Rendered r # tr) = r # responses tr"

definition statuses :: "'v event list \<Rightarrow> int list" where
  "statuses tr = map resp_status (responses tr)"

text \<open>
  Modelled from the spec: package logging is not among the sources. The spec (section 6)
  gives the logging collaborator as a structured call of the shape
  \<open>withField(key, value)... .log(severity, message)\<close>: each call of the chain returns the
  scope that the next call is made on, and the entry is emitted by the last one. A
  scope is the set of fields it attaches; \<open>WithField\<close>, \<open>SetFields\<close> and \<open>WithError\<close>
  return the receiver's scope with the given fields set, and \<open>Info\<close> and \<open>Error\<close> emit
  one entry of that severity carrying the fields of the scope they are called on.
  The spec does not say whether a call also changes the scope it is made on. The
  functions below return the new scope and leave the receiver as it was, so nothing
  is derived here about the \<open>request-id\<close> field of an entry: that field depends on
  what \<open>WithField\<close> does to its receiver on line 129. The severity of the entry, its
  fields \<open>code\<close>, \<open>error\<close> and \<open>stack\<close>, and the response do not.
\<close>

type_synonym 'v logger = "'v Fields"

definition logging_WithField :: "'v logger \<Rightarrow> string \<Rightarrow> 'v any \<Rightarrow> 'v logger" where
  "logging_WithField l key val = l(key \<mapsto> val)"

definition logging_SetFields :: "'v logger \<Rightarrow> 'v Fields \<Rightarrow> 'v logger" where
  "logging_SetFields l fs = l ++ fs"

definition logging_WithError :: "'v logger \<Rightarrow> error \<Rightarrow> 'v logger" where
  "logging_WithError l err = logging_WithField l ''error'' (ErrorV err)"

definition logging_Info :: "'v logger \<Rightarrow> string \<Rightarrow> 'v event list \<Rightarrow> 'v event list" where
  "logging_Info l message tr =
     tr @ [Logged \<lparr>entry_level = InfoLevel, entry_message = message, entry_fields = l\<rparr>]"

definition logging_Error :: "'v logger \<Rightarrow> string \<Rightarrow> 'v event list \<Rightarrow> 'v event list" where
  "logging_Error l message tr =
     tr @ [Logged \<lparr>entry_level = ErrorLevel, entry_message = message, entry_fields = l\<rparr>]"

text \<open>
  Modelled from the spec: package render is not among the sources. The spec (section 6)
  gives \<open>writeJSON(responseSink, httpStatus, payload)\<close>: one response with that status
  whose body is the payload serialized as JSON.
\<close>

definition render_JSON :: "int \<Rightarrow> 'v any \<Rightarrow> 'v event list \<Rightarrow> 'v event list" where
  "render_JSON code v tr = tr @ [Rendered \<lparr>resp_status = code, resp_payload = v\<rparr>]"

text \<open>
  Modelled from the spec: package observability is not among the sources. The spec
  (section 6) gives \<open>correlationID(requestContext)\<close> as a pure read of the request's
  context; the request is modelled by the identifier its context holds.
\<close>

record request =
  request_id :: string

definition RequestIDFromContext :: "request \<Rightarrow> string" where
  "RequestIDFromContext req = request_id req"

text \<open>
  What one call of the handler reads from the process: the logger that
  \<open>logging.GetLogger()\<close> returns and the text that \<open>debug.Stack()\<close> returns when the
  handler calls it.
\<close>

record 'v process =
  GetLogger :: "'v logger"
  debug_Stack :: string

text \<open>The JSON document of a payload. For \<open>*Error\<close> it follows the struct tags of
  lines 45-46: \<open>Code\<close> is left out and \<open>Message\<close> is the member \<open>error\<close>. \<open>enc\<close> encodes
  the values of the other types; the encoding of the remaining error types is not
  needed, the handler never renders them.\<close>

datatype json = JNull | JString string | JNumber int | JObject "(string \<times> json) list"

fun json_Marshal :: "('v \<Rightarrow> json) \<Rightarrow> 'v any \<Rightarrow> json option" where
  "json_Marshal enc NilV = Some JNull"
| "json_Marshal enc (StringV s) = Some (JString s)"
| "json_Marshal enc (IntV i) = Some (JNumber i)"
| "json_Marshal enc (OtherV v) = Some (enc v)"
| "json_Marshal enc (ErrorV (ErrorT code message)) = Some (JObject [(''error'', JString message)])"
| "json_Marshal enc (ErrorV e) = None"

subsection \<open>Sentinels and the handler (lines 17-22, 127-152)\<close>

definition StatusBadRequest :: int where
  "StatusBadRequest = 400"

definition StatusNotFound :: int where
  "StatusNotFound = 404"

definition StatusInternalServerError :: int where
  "StatusInternalServerError = 500"

definition ErrRouteNotFound :: error where
  "ErrRouteNotFound = NewWithCode StatusNotFound ''no API found with those values''"

definition ErrInvalidID :: error where
  "ErrInvalidID = NewWithCode StatusBadRequest ''please provide a valid ID''"

text \<open>
  \<open>Handler p req err tr\<close>: \<open>tr\<close> is what has been logged and written to \<open>rw\<close> before
  the call, the result is \<open>tr\<close> followed by what the call logs and writes. The value
  that \<open>logger.WithField("request-id", ...)\<close> returns on line 129 is not assigned;
  lines 133, 136 and 139 start again from \<open>logger\<close>.
\<close>

definition Handler :: "'v process \<Rightarrow> request \<Rightarrow> 'v any \<Rightarrow> 'v event list \<Rightarrow> 'v event list" where
  "Handler p req err tr =
     (let logger = GetLogger p;
          _ = logging_WithField logger ''request-id'' (StringV (RequestIDFromContext req))
      in case err of
           ErrorV (ErrorT code message) \<Rightarrow>
             render_JSON code (ErrorV (ErrorT code message))
               (logging_Info
                  (logging_SetFields logger
                     [''code'' \<mapsto> IntV code, ''error'' \<mapsto> StringV (Error (ErrorT code message))])
                  ''Internal error handled'' tr)
         | ErrorV internalErr \<Rightarrow>
             render_JSON StatusInternalServerError (StringV (Error internalErr))
               (logging_Error
                  (logging_WithField (logging_WithError logger internalErr)
                     ''stack'' (StringV (debug_Stack p)))
                  ''Internal server error handled'' tr)
         | _ \<Rightarrow>
             render_JSON StatusInternalServerError err
               (logging_Error
                  (logging_WithField (logging_WithField logger ''error'' err)
                     ''stack'' (StringV (debug_Stack p)))
                  ''Internal server error handled'' tr))"

definition NotFound :: "'v process \<Rightarrow> request \<Rightarrow> 'v event list \<Rightarrow> 'v event list" where
  "NotFound p req tr = Handler p req (ErrorV ErrRouteNotFound) tr"

definition RecoveryHandler :: "'v process \<Rightarrow> request \<Rightarrow> 'v any \<Rightarrow> 'v event list \<Rightarrow> 'v event list" where
  "RecoveryHandler p req err tr = Handler p req err tr"

text \<open>The two tests of the type switch of line 131: \<open>case *Error\<close> and \<open>case error\<close>.\<close>

fun is_Error_ptr :: "'v any \<Rightarrow> bool" where
  "is_Error_ptr (ErrorV (ErrorT code message)) = True"
| "is_Error_ptr v = False"

fun is_error :: "'v any \<Rightarrow> bool" where
  "is_error (ErrorV e) = True"
| "is_error v = False"

subsection \<open>The message trail of a chain, as the specification words it\<close>

text \<open>
  The specification reads a chain as the messages of its \<open>MessageAnnotated\<close> nodes,
  outermost first, above a root. \<open>spec_annotations\<close> collects those messages and
  \<open>spec_root\<close> is the node below the last wrapper of this package; \<open>spec_joined\<close>
  puts the separator after each annotation.
\<close>

fun spec_annotations :: "error \<Rightarrow> string list" where
  "spec_annotations (withMessage cause msg) = msg # spec_annotations cause"
| "spec_annotations (withStack err st) = spec_annotations err"
| "spec_annotations e = []"

fun spec_root :: "error \<Rightarrow> error" where
  "spec_root (withMessage cause msg) = spec_root cause"
| "spec_root (withStack err st) = spec_root err"
| "spec_root e = e"

fun spec_joined :: "string list \<Rightarrow> string \<Rightarrow> string" where
  "spec_joined [] root = root"
| "spec_joined (m # ms) root = m @ '': '' @ spec_joined ms root"

section \<open>Properties\<close>

subsection \<open>Shared lemmas\<close>

lemma Error_spec_joined:
  "Error e = spec_joined (spec_annotations e) (Error (spec_root e))"
  by (induction e rule: spec_root.induct) simp_all

lemma Cause_spec_root:
  "causer (spec_root e) = None \<Longrightarrow> Cause (Some e) = Some (spec_root e)"
  by (induction e rule: spec_root.induct) simp_all

lemma responses_append:
  "responses (tr @ tr') = responses tr @ responses tr'"
  by (induction tr rule: responses.induct) simp_all

lemma Handler_case_Error_ptr:
  "Handler p req (ErrorV (ErrorT code message)) tr =
     tr @ [Logged \<lparr>entry_level = InfoLevel, entry_message = ''Internal error handled'',
                   entry_fields = (GetLogger p)(''code'' \<mapsto> IntV code, ''error'' \<mapsto> StringV message)\<rparr>,
           Rendered \<lparr>resp_status = code, resp_payload = ErrorV (ErrorT code message)\<rparr>]"
  by (simp add: Handler_def render_JSON_def logging_Info_def logging_SetFields_def)

lemma Handler_case_error:
  "\<not> is_Error_ptr (ErrorV e :: 'v any) \<Longrightarrow>
   Handler p req (ErrorV e :: 'v any) tr =
     tr @ [Logged \<lparr>entry_level = ErrorLevel, entry_message = ''Internal server error handled'',
                   entry_fields = (GetLogger p)(''error'' \<mapsto> ErrorV e,
                                                ''stack'' \<mapsto> StringV (debug_Stack p))\<rparr>,
           Rendered \<lparr>resp_status = StatusInternalServerError, resp_payload = StringV (Error e)\<rparr>]"
  by (cases e)
    (simp_all add: Handler_def render_JSON_def logging_Error_def logging_WithField_def
       logging_WithError_def)

lemma Handler_case_default:
  "\<not> is_error err \<Longrightarrow>
   Handler p req err tr =
     tr @ [Logged \<lparr>entry_level = ErrorLevel, entry_message = ''Internal server error handled'',
                   entry_fields = (GetLogger p)(''error'' \<mapsto> err,
                                                ''stack'' \<mapsto> StringV (debug_Stack p))\<rparr>,
           Rendered \<lparr>resp_status = StatusInternalServerError, resp_payload = err\<rparr>]"
  by (cases err)
    (simp_all add: Handler_def render_JSON_def logging_Error_def logging_WithField_def)

lemma Handler_status_500:
  "\<not> is_Error_ptr err \<Longrightarrow>
   statuses (Handler p req err tr) = statuses tr @ [StatusInternalServerError]"
proof (cases "is_error err")
  case True
  assume shape: "\<not> is_Error_ptr err"
  from True obtain e where err: "err = ErrorV e"
    by (cases err) simp_all
  show ?thesis
    using shape unfolding err
    by (simp add: Handler_case_error statuses_def responses_append)
next
  case False
  then show ?thesis
    by (simp add: Handler_case_default statuses_def responses_append)
qed

subsection \<open>The error chain\<close>

text \<open>
  C4. Each of the four wrap-style operations returns nil when the error it is given
  is nil, for every message, format, argument list and captured stack.
\<close>

theorem wrap_operations_nil_transparent:
  "Wrap cs None m = None
   \<and> Wrapf sprintf cs None format args = None
   \<and> WithStack cs None = None
   \<and> WithMessage None m = None"
  by (simp add: Wrap_def Wrapf_def WithStack_def WithMessage_def)

text \<open>
  C5. The message of a chain is its message annotations, outermost first, each followed
  by a colon and a space, and then the message of the root: the node below the
  wrappers of this package, which is what \<open>Cause\<close> returns whenever that node has no
  \<open>Cause()\<close> method. A \<open>withMessage\<close> node's message is its own message, the separator
  and the cause's message; a \<open>withStack\<close> node's message is the wrapped error's message.
  For the chain \<open>Wrap(Wrap(New("root"), "mid"), "outer")\<close> it is \<open>outer: mid: root\<close>,
  whatever stacks were captured.
\<close>

theorem Error_message_trail:
  "Error e = spec_joined (spec_annotations e) (Error (spec_root e))
   \<and> (causer (spec_root e) = None \<longrightarrow> Cause (Some e) = Some (spec_root e))
   \<and> Error (withMessage cause msg) = msg @ '': '' @ Error cause
   \<and> Error (withStack err st) = Error err
   \<and> map_option Error (Wrap s2 (Wrap s1 (New s0 ''root'') ''mid'') ''outer'')
       = Some ''outer: mid: root''"
proof -
  have trail: "Error e = spec_joined (spec_annotations e) (Error (spec_root e))"
    by (rule Error_spec_joined)
  have root: "causer (spec_root e) = None \<longrightarrow> Cause (Some e) = Some (spec_root e)"
    using Cause_spec_root by blast
  have example: "map_option Error (Wrap s2 (Wrap s1 (New s0 ''root'') ''mid'') ''outer'')
       = Some ''outer: mid: root''"
    by (simp add: Wrap_def New_def)
  show ?thesis
    using trail root example by simp
qed

theorem Error_message_trail_witness:
  "causer (spec_root (withStack (withMessage (withMessage (foreignError ''disk full'') ''write'') ''save'') []))
     = None
   \<and> Cause (Some (withStack (withMessage (withMessage (foreignError ''disk full'') ''write'') ''save'') []))
     = Some (foreignError ''disk full'')
   \<and> Error (withStack (withMessage (withMessage (foreignError ''disk full'') ''write'') ''save'') [])
     = ''save: write: disk full''"
  using Error_message_trail
    [where e = "withStack (withMessage (withMessage (foreignError ''disk full'') ''write'') ''save'') []"]
  by simp

text \<open>
  C6. Wrapping a non-nil error with any message leaves the result of \<open>Cause\<close>
  unchanged; \<open>Cause\<close> of nil is nil; and \<open>Cause\<close> of a value without a \<open>Cause()\<close>
  method is that value.
\<close>

theorem Cause_Wrap_unchanged:
  "Cause (Wrap cs (Some e) m) = Cause (Some e)
   \<and> Cause None = None
   \<and> (causer e = None \<longrightarrow> Cause (Some e) = Some e)"
  by (simp add: Wrap_def)

theorem Cause_Wrap_unchanged_witness:
  "causer (fundamental ''root'' []) = None
   \<and> Cause (Some (fundamental ''root'' [])) = Some (fundamental ''root'' [])
   \<and> Cause (Wrap [] (Some (fundamental ''root'' [])) ''context'') = Some (fundamental ''root'' [])"
  using Cause_Wrap_unchanged
    [where cs = "[]" and e = "fundamental ''root'' []" and m = "''context''"]
  by simp

text \<open>
  C7. Formatting the chain \<open>Wrap(Wrap(New("root"), "mid"), "outer")\<close> with \<open>%+v\<close> writes
  the root's message, the root's stack, then on a new line each wrapping message
  followed by the stack captured by that \<open>Wrap\<close>, the outermost last. The text comes
  from formatting the cause first at each node. Without the flag, and under \<open>%s\<close>,
  every value is rendered as its message alone; under \<open>%q\<close> as its message alone,
  quoted except for a \<open>withMessage\<close> node.
\<close>

theorem Format_verbose_chain:
  "map_option (Format env True (CHR ''v'')) (Wrap s2 (Wrap s1 (New s0 ''root'') ''mid'') ''outer'')
     = Some (''root'' @ stack_Format env True (CHR ''v'') s0
             @ [newline] @ ''mid'' @ stack_Format env True (CHR ''v'') s1
             @ [newline] @ ''outer'' @ stack_Format env True (CHR ''v'') s2)
   \<and> Format env True (CHR ''v'') (fundamental msg st)
       = msg @ stack_Format env True (CHR ''v'') st
   \<and> Format env True (CHR ''v'') (withStack err st)
       = Format env True (CHR ''v'') err @ stack_Format env True (CHR ''v'') st
   \<and> Format env True (CHR ''v'') (withMessage cause msg')
       = Format env True (CHR ''v'') cause @ [newline] @ msg'
   \<and> Format env False (CHR ''v'') e = Error e
   \<and> Format env plusf (CHR ''s'') e = Error e
   \<and> Format env plusf (CHR ''q'') e
       = (case e of withMessage c m \<Rightarrow> Error e | _ \<Rightarrow> quote env (Error e))"
proof -
  have chain: "map_option (Format env True (CHR ''v''))
        (Wrap s2 (Wrap s1 (New s0 ''root'') ''mid'') ''outer'')
     = Some (''root'' @ stack_Format env True (CHR ''v'') s0
             @ [newline] @ ''mid'' @ stack_Format env True (CHR ''v'') s1
             @ [newline] @ ''outer'' @ stack_Format env True (CHR ''v'') s2)"
    by (simp add: Wrap_def New_def)
  have plain: "Format env False (CHR ''v'') e = Error e"
    by (cases e) simp_all
  have str: "Format env plusf (CHR ''s'') e = Error e"
    by (cases e) simp_all
  have quoted: "Format env plusf (CHR ''q'') e
       = (case e of withMessage c m \<Rightarrow> Error e | _ \<Rightarrow> quote env (Error e))"
    by (cases e) simp_all
  show ?thesis
    using chain plain str quoted by simp
qed

subsection \<open>The handler\<close>

text \<open>
  C1. Given a \<open>*Error\<close> with any status code and message, the handler adds to what was
  logged and written before exactly one log entry, of informational severity, with
  the fields \<open>code\<close> and \<open>error\<close> set to the code and the message, and then exactly one
  response, whose status is the code and whose JSON body is the object with the single
  member \<open>error\<close> holding the message. For the route-not-found sentinel, also through
  \<open>NotFound\<close>, the status is 404 and the member holds
  \<open>no API found with those values\<close>.
\<close>

theorem Handler_sentinel:
  "Handler p req (ErrorV (NewWithCode code message)) tr =
     tr @ [Logged \<lparr>entry_level = InfoLevel, entry_message = ''Internal error handled'',
                   entry_fields = (GetLogger p)(''code'' \<mapsto> IntV code,
                                                ''error'' \<mapsto> StringV message)\<rparr>,
           Rendered \<lparr>resp_status = code, resp_payload = ErrorV (NewWithCode code message)\<rparr>]
   \<and> json_Marshal enc (ErrorV (NewWithCode code message))
       = Some (JObject [(''error'', JString message)])
   \<and> map (\<lambda>en. (entry_level en, entry_fields en ''code'', entry_fields en ''error''))
         (entries (Handler p req (ErrorV (NewWithCode code message)) []))
       = [(InfoLevel, Some (IntV code), Some (StringV message))]
   \<and> NotFound p req tr = Handler p req (ErrorV ErrRouteNotFound) tr
   \<and> map (\<lambda>r. (resp_status r, json_Marshal enc (resp_payload r)))
         (responses (NotFound p req []))
       = [(404, Some (JObject [(''error'', JString ''no API found with those values'')]))]
   \<and> map entry_level (entries (NotFound p req [])) = [InfoLevel]"
  by (simp add: Handler_case_Error_ptr NewWithCode_def NotFound_def ErrRouteNotFound_def
      StatusNotFound_def)

text \<open>
  C2. Whatever the failure value, nil or not, if its dynamic type is not \<open>*Error\<close> the
  handler writes one response and its status is 500. This holds for the results of
  \<open>Wrap\<close>, \<open>WithMessage\<close> and \<open>WithStack\<close> applied to any error \<open>e\<close>, also when \<open>e\<close> or
  its root cause is a \<open>*Error\<close>: the result of \<open>Cause\<close> is still that of \<open>e\<close>, and
  the handler does not look at it.
\<close>

theorem Handler_outermost_shape:
  "(\<not> is_Error_ptr err \<longrightarrow>
      statuses (Handler p req err tr) = statuses tr @ [500])
   \<and> (case Wrap cs (Some e) m of
         None \<Rightarrow> False
       | Some w \<Rightarrow> Cause (Some w) = Cause (Some e)
           \<and> statuses (Handler p req (ErrorV w :: 'v any) tr) = statuses tr @ [500])
   \<and> (case WithMessage (Some e) m of
         None \<Rightarrow> False
       | Some w \<Rightarrow> Cause (Some w) = Cause (Some e)
           \<and> statuses (Handler p req (ErrorV w :: 'v any) tr) = statuses tr @ [500])
   \<and> (case WithStack cs (Some e) of
         None \<Rightarrow> False
       | Some w \<Rightarrow> Cause (Some w) = Cause (Some e)
           \<and> statuses (Handler p req (ErrorV w :: 'v any) tr) = statuses tr @ [500])"
  by (simp add: Handler_status_500 Wrap_def WithMessage_def WithStack_def
      StatusInternalServerError_def [symmetric])

theorem Handler_outermost_shape_witness:
  "\<not> is_Error_ptr (ErrorV (withStack (withMessage ErrRouteNotFound ''lookup'') []) :: unit any)
   \<and> Cause (Some (withStack (withMessage ErrRouteNotFound ''lookup'') [])) = Some ErrRouteNotFound
   \<and> statuses (Handler \<lparr>GetLogger = Map.empty, debug_Stack = ''goroutine 1 [running]:''\<rparr>
        \<lparr>request_id = ''abc''\<rparr>
        (ErrorV (withStack (withMessage ErrRouteNotFound ''lookup'') []) :: unit any) [])
       = [500]
   \<and> statuses (Handler \<lparr>GetLogger = Map.empty, debug_Stack = ''goroutine 1 [running]:''\<rparr>
        \<lparr>request_id = ''abc''\<rparr> (ErrorV ErrRouteNotFound :: unit any) [])
       = [404]"
  using Handler_outermost_shape
    [where err = "ErrorV (withStack (withMessage ErrRouteNotFound ''lookup'') []) :: unit any"
       and p = "\<lparr>GetLogger = Map.empty, debug_Stack = ''goroutine 1 [running]:''\<rparr>"
       and req = "\<lparr>request_id = ''abc''\<rparr>" and tr = "[]" and cs = "[]"
       and e = ErrRouteNotFound and m = "''lookup''"]
  by (simp add: Wrap_def ErrRouteNotFound_def NewWithCode_def statuses_def
      Handler_case_Error_ptr StatusNotFound_def)

text \<open>
  C3. Given an error that is not a \<open>*Error\<close>, the handler adds exactly one log entry,
  of error severity, carrying the error under \<open>error\<close> and under \<open>stack\<close> the trace that
  \<open>debug.Stack()\<close> returns during the call, whatever stacks the error embeds, and then
  exactly one response, with status 500 and the error's message as a JSON string for
  body. The logged trace is not empty, \<open>debug.Stack()\<close> returning a non-empty trace.
\<close>

theorem Handler_generic_error:
  assumes "\<not> is_Error_ptr (ErrorV e :: 'v any)"
    and "debug_Stack p \<noteq> []"
  shows "Handler p req (ErrorV e :: 'v any) tr =
     tr @ [Logged \<lparr>entry_level = ErrorLevel, entry_message = ''Internal server error handled'',
                   entry_fields = (GetLogger p)(''error'' \<mapsto> ErrorV e,
                                                ''stack'' \<mapsto> StringV (debug_Stack p))\<rparr>,
           Rendered \<lparr>resp_status = 500, resp_payload = StringV (Error e)\<rparr>]
   \<and> json_Marshal enc (StringV (Error e)) = Some (JString (Error e))
   \<and> map (\<lambda>en. entry_fields en ''stack'') (entries (Handler p req (ErrorV e :: 'v any) []))
       = [Some (StringV (debug_Stack p))]
   \<and> StringV (debug_Stack p) \<noteq> (StringV [] :: 'v any)"
  using assms
  by (simp add: Handler_case_error StatusInternalServerError_def)

theorem Handler_generic_error_witness:
  "\<not> is_Error_ptr (ErrorV (foreignError ''disk full'') :: unit any)
   \<and> ''goroutine 1 [running]:'' \<noteq> []
   \<and> map (\<lambda>r. (resp_status r, json_Marshal (\<lambda>u. JNull) (resp_payload r)))
        (responses (Handler \<lparr>GetLogger = Map.empty, debug_Stack = ''goroutine 1 [running]:''\<rparr>
           \<lparr>request_id = ''abc''\<rparr> (ErrorV (foreignError ''disk full'') :: unit any) []))
       = [(500, Some (JString ''disk full''))]
   \<and> map (\<lambda>en. (entry_level en, entry_fields en ''error'', entry_fields en ''stack''))
        (entries (Handler \<lparr>GetLogger = Map.empty, debug_Stack = ''goroutine 1 [running]:''\<rparr>
           \<lparr>request_id = ''abc''\<rparr> (ErrorV (foreignError ''disk full'') :: unit any) []))
       = [(ErrorLevel, Some (ErrorV (foreignError ''disk full'')),
           Some (StringV ''goroutine 1 [running]:''))]"
  using Handler_generic_error
    [where e = "foreignError ''disk full''"
       and p = "\<lparr>GetLogger = Map.empty, debug_Stack = ''goroutine 1 [running]:''\<rparr> :: unit process"
       and req = "\<lparr>request_id = ''abc''\<rparr>" and tr = "[]" and enc = "\<lambda>u. JNull"]
  by simp

text \<open>
  C9. Given a value whose dynamic type does not implement \<open>error\<close>, the handler adds
  exactly one log entry, of error severity, carrying the value itself under \<open>error\<close> and
  the trace of \<open>debug.Stack()\<close> under \<open>stack\<close>, and then exactly one response, with
  status 500 and the value itself as payload; for the string \<open>boom\<close> the JSON body is
  the string \<open>boom\<close>.
\<close>

theorem Handler_non_error_value:
  assumes "\<not> is_error err"
  shows "Handler p req err tr =
     tr @ [Logged \<lparr>entry_level = ErrorLevel, entry_message = ''Internal server error handled'',
                   entry_fields = (GetLogger p)(''error'' \<mapsto> err,
                                                ''stack'' \<mapsto> StringV (debug_Stack p))\<rparr>,
           Rendered \<lparr>resp_status = 500, resp_payload = err\<rparr>]
   \<and> json_Marshal enc (StringV ''boom'' :: 'v any) = Some (JString ''boom'')
   \<and> json_Marshal enc (OtherV v) = Some (enc v)"
  using assms
  by (simp add: Handler_case_default StatusInternalServerError_def)

theorem Handler_non_error_value_witness:
  "\<not> is_error (StringV ''boom'' :: unit any)
   \<and> map (\<lambda>r. (resp_status r, json_Marshal (\<lambda>u. JNull) (resp_payload r)))
        (responses (Handler \<lparr>GetLogger = Map.empty, debug_Stack = ''goroutine 1 [running]:''\<rparr>
           \<lparr>request_id = ''abc''\<rparr> (StringV ''boom'' :: unit any) []))
       = [(500, Some (JString ''boom''))]
   \<and> map (\<lambda>en. (entry_level en, entry_fields en ''error'', entry_fields en ''stack''))
        (entries (Handler \<lparr>GetLogger = Map.empty, debug_Stack = ''goroutine 1 [running]:''\<rparr>
           \<lparr>request_id = ''abc''\<rparr> (StringV ''boom'' :: unit any) []))
       = [(ErrorLevel, Some (StringV ''boom''), Some (StringV ''goroutine 1 [running]:''))]"
  using Handler_non_error_value
    [where err = "StringV ''boom'' :: unit any"
       and p = "\<lparr>GetLogger = Map.empty, debug_Stack = ''goroutine 1 [running]:''\<rparr>"
       and req = "\<lparr>request_id = ''abc''\<rparr>" and tr = "[]" and enc = "\<lambda>u. JNull"
       and v = "()"]
  by simp

text \<open>
  C10. Given nil, the handler does not return silently: it takes the default branch
  of the type switch and adds exactly one log entry, of error severity, and exactly
  one response, with status 500 and nil as payload, whose JSON document is \<open>null\<close>.
\<close>

theorem Handler_nil_value:
  "Handler p req NilV tr =
     tr @ [Logged \<lparr>entry_level = ErrorLevel, entry_message = ''Internal server error handled'',
                   entry_fields = (GetLogger p)(''error'' \<mapsto> NilV,
                                                ''stack'' \<mapsto> StringV (debug_Stack p))\<rparr>,
           Rendered \<lparr>resp_status = 500, resp_payload = NilV\<rparr>]
   \<and> json_Marshal enc (NilV :: 'v any) = Some JNull
   \<and> length (entries (Handler p req NilV [])) = 1
   \<and> length (responses (Handler p req NilV [])) = 1"
  by (simp add: Handler_case_default StatusInternalServerError_def)

end
